theory Spec2Isabelle
  imports Complex_Main
begin

section \<open>Synthetic observation generator (generate\_synthetic\_obs.py)\<close>

text \<open>
  Python floats are modelled as real numbers: no rounding, no NaN, no infinities and no
  negative zero. Python ints are \<^typ>\<open>int\<close>. Every exception the source can raise is a
  value of type \<open>exn\<close>, and a function that may raise returns \<open>exn + 'a\<close>.
\<close>

datatype exn = ValueError string | KeyError string | IndexError | OSError string

subsection \<open>Grid Locator\<close>

text \<open>
  \<open>np.argmin\<close> scans the array from the left and keeps the position of the first
  element that is strictly smaller than everything before it; on an empty array it raises
  \<open>ValueError\<close>.
\<close>

fun argmin_scan :: "real list \<Rightarrow> nat \<Rightarrow> real \<Rightarrow> nat \<Rightarrow> nat" where
  "argmin_scan [] k best bi = bi"
| "argmin_scan (x # xs) k best bi =
     (if x < best then argmin_scan xs (Suc k) x k else argmin_scan xs (Suc k) best bi)"

definition np_argmin :: "real list \<Rightarrow> exn + nat" where
  "np_argmin xs =
     (case xs of
        [] \<Rightarrow> Inl (ValueError ''attempt to get argmin of an empty sequence'')
      | x # rest \<Rightarrow> Inr (argmin_scan rest 1 x 0))"

text \<open>\<open>np.abs(axis - q)\<close>: the elementwise distance of an axis to a query coordinate.\<close>

definition abs_diff :: "real list \<Rightarrow> real \<Rightarrow> real list" where
  "abs_diff axis q = map (\<lambda>m. \<bar>m - q\<bar>) axis"

definition find_nearest_grid_point ::
  "real \<Rightarrow> real \<Rightarrow> real list \<Rightarrow> real list \<Rightarrow> exn + (nat \<times> nat)" where
  "find_nearest_grid_point obs_lon obs_lat model_lon model_lat =
     (let obs_lon' = (if obs_lon < 0 then obs_lon + 360 else obs_lon) in
      case np_argmin (abs_diff model_lon obs_lon') of
        Inl e \<Rightarrow> Inl e
      | Inr i \<Rightarrow>
          (case np_argmin (abs_diff model_lat obs_lat) of
             Inl e \<Rightarrow> Inl e
           | Inr j \<Rightarrow> Inr (i, j)))"



subsection \<open>Sequencing of calls that may raise\<close>

definition and_then :: "exn + 'a \<Rightarrow> ('a \<Rightarrow> exn + 'b) \<Rightarrow> exn + 'b" where
  "and_then m f = (case m of Inl e \<Rightarrow> Inl e | Inr x \<Rightarrow> f x)"

subsection \<open>The process-wide random generator\<close>

text \<open>
  \<open>numpy.random\<close> is not part of the repository. Its generator is a parameter of the
  model: a state type \<open>'g\<close>, the state that \<open>np.random.seed(s)\<close> installs, and the two
  primitive draws that advance the state, a uniform double in \<open>[0, 1)\<close> and a standard
  normal deviate.
\<close>

record 'g np_random =
  seed_state :: "int \<Rightarrow> 'g"
  next_double :: "'g \<Rightarrow> real \<times> 'g"
  next_gauss :: "'g \<Rightarrow> real \<times> 'g"

definition np_seed :: "'g np_random \<Rightarrow> int \<Rightarrow> exn + 'g" where
  "np_seed R s =
     (if 0 \<le> s \<and> s < 2 ^ 32 then Inr (seed_state R s)
      else Inl (ValueError ''Seed must be between 0 and 2**32 - 1''))"

text \<open>\<open>np.random.uniform(low, high, n)\<close>: \<open>n\<close> successive draws \<open>low + (high - low) * u\<close>.\<close>

fun draw_uniform :: "'g np_random \<Rightarrow> real \<Rightarrow> real \<Rightarrow> nat \<Rightarrow> 'g \<Rightarrow> real list \<times> 'g" where
  "draw_uniform R low high 0 g = ([], g)"
| "draw_uniform R low high (Suc n) g =
     (case next_double R g of
        (u, g1) \<Rightarrow>
          (case draw_uniform R low high n g1 of
             (xs, g2) \<Rightarrow> ((low + (high - low) * u) # xs, g2)))"

definition np_uniform :: "'g np_random \<Rightarrow> real \<Rightarrow> real \<Rightarrow> int \<Rightarrow> 'g \<Rightarrow> exn + (real list \<times> 'g)" where
  "np_uniform R low high n g =
     (if n < 0 then Inl (ValueError ''negative dimensions are not allowed'')
      else Inr (draw_uniform R low high (nat n) g))"

text \<open>
  The value \<open>np.random.normal(loc, scale)\<close> is called with and returns: a Python float
  or an array. With a float scale and no \<open>size\<close> argument the call makes a single draw
  and returns a float; with an array scale it makes one draw per entry.
\<close>

datatype np_value = Scalar real | Array "real list"

fun draw_normal :: "'g np_random \<Rightarrow> real \<Rightarrow> real list \<Rightarrow> 'g \<Rightarrow> real list \<times> 'g" where
  "draw_normal R loc [] g = ([], g)"
| "draw_normal R loc (s # ss) g =
     (case next_gauss R g of
        (z, g1) \<Rightarrow>
          (case draw_normal R loc ss g1 of
             (xs, g2) \<Rightarrow> ((loc + s * z) # xs, g2)))"

definition np_normal :: "'g np_random \<Rightarrow> real \<Rightarrow> np_value \<Rightarrow> 'g \<Rightarrow> exn + (np_value \<times> 'g)" where
  "np_normal R loc scale g =
     (case scale of
        Scalar s \<Rightarrow>
          (if s < 0 then Inl (ValueError ''scale < 0'')
           else (case next_gauss R g of (z, g1) \<Rightarrow> Inr (Scalar (loc + s * z), g1)))
      | Array ss \<Rightarrow>
          (if \<exists>s \<in> set ss. s < 0 then Inl (ValueError ''scale < 0'')
           else (case draw_normal R loc ss g of (xs, g1) \<Rightarrow> Inr (Array xs, g1))))"

text \<open>
  \<open>values + noise\<close>: a float is broadcast over the array; two arrays, here always of the
  same length, add entry by entry.
\<close>

definition np_add :: "real list \<Rightarrow> np_value \<Rightarrow> real list" where
  "np_add values noise =
     (case noise of
        Scalar z \<Rightarrow> map (\<lambda>v. v + z) values
      | Array zs \<Rightarrow> map (\<lambda>(v, z). v + z) (zip values zs))"

subsection \<open>Network Sampler\<close>

text \<open>
  The result of a call that uses the generator carries the generator state it leaves
  behind. An exception ends the run, so no state is returned with it.
\<close>

definition generate_random_locations ::
  "'g np_random \<Rightarrow> int \<Rightarrow> real \<times> real \<Rightarrow> real \<times> real \<Rightarrow> int option \<Rightarrow> 'g
     \<Rightarrow> exn + ((real list \<times> real list) \<times> 'g)" where
  "generate_random_locations R n_obs lon_range lat_range seed g =
     and_then (case seed of None \<Rightarrow> Inr g | Some s \<Rightarrow> np_seed R s) (\<lambda>g0.
     and_then (np_uniform R (fst lon_range) (snd lon_range) n_obs g0) (\<lambda>(lons, g1).
     and_then (np_uniform R (fst lat_range) (snd lat_range) n_obs g1) (\<lambda>(lats, g2).
     Inr ((lons, lats), g2))))"

subsection \<open>Noise Model\<close>

definition add_observation_noise ::
  "'g np_random \<Rightarrow> real list \<Rightarrow> string \<Rightarrow> 'g \<Rightarrow> exn + ((real list \<times> real list) \<times> 'g)" where
  "add_observation_noise R values variable g =
     and_then
       (if variable = ''tas'' then
          Inr (Scalar 1, replicate (length values) 1)
        else if variable = ''pr'' then
          Inr (Array (map (\<lambda>v. 0.1 * \<bar>v\<bar>) values), map (\<lambda>v. 0.1 * \<bar>v\<bar>) values)
        else Inl (ValueError (''Unknown variable: '' @ variable)))
       (\<lambda>(noise_std, errors).
     and_then (np_normal R 0 noise_std g) (\<lambda>(noise, g1).
     Inr ((np_add values noise, errors), g1)))"

subsection \<open>Nature-run fields and the Field Sampler\<close>

text \<open>
  A numpy array is its shape and its entries in row-major order; the entries are as many
  as the product of the shape. An index may be negative and then counts from the end of
  its axis; an index outside its axis raises \<open>IndexError\<close>. \<open>nd_item a idx\<close> is
  \<open>a[idx]\<close> for a full index tuple; the sampler only indexes with as many indices as
  the array has axes.
\<close>

record ndarray =
  shape :: "nat list"
  data :: "real list"

fun flat_index :: "nat list \<Rightarrow> int list \<Rightarrow> exn + nat" where
  "flat_index [] [] = Inr 0"
| "flat_index (d # ds) (i # is) =
     (let i' = (if i < 0 then i + int d else i) in
      if 0 \<le> i' \<and> i' < int d then
        and_then (flat_index ds is) (\<lambda>off. Inr (nat i' * prod_list ds + off))
      else Inl IndexError)"
| "flat_index [] (i # is) = Inl IndexError"
| "flat_index (d # ds) [] = Inl IndexError"

definition nd_item :: "ndarray \<Rightarrow> int list \<Rightarrow> exn + real" where
  "nd_item a idx = and_then (flat_index (shape a) idx) (\<lambda>off. Inr (data a ! off))"

text \<open>The dictionary returned by the loader has exactly these five keys.\<close>

record nature_data =
  nd_tas :: ndarray
  nd_pr :: ndarray
  nd_lon :: "real list"
  nd_lat :: "real list"
  nd_time :: "real list"

definition vector :: "real list \<Rightarrow> ndarray" where
  "vector xs = \<lparr>shape = [length xs], data = xs\<rparr>"

definition nature_item :: "nature_data \<Rightarrow> string \<Rightarrow> exn + ndarray" where
  "nature_item nature key =
     (if key = ''tas'' then Inr (nd_tas nature)
      else if key = ''pr'' then Inr (nd_pr nature)
      else if key = ''lon'' then Inr (vector (nd_lon nature))
      else if key = ''lat'' then Inr (vector (nd_lat nature))
      else if key = ''time'' then Inr (vector (nd_time nature))
      else Inl (KeyError key))"

text \<open>Decimal digits of a natural number and of an integer, as \<open>str\<close> prints them.\<close>

fun str_nat :: "nat \<Rightarrow> string" where
  "str_nat n =
     (if n < 10 then [''0123456789'' ! n]
      else str_nat (n div 10) @ [''0123456789'' ! (n mod 10)])"

declare str_nat.simps [simp del]

definition str_int :: "int \<Rightarrow> string" where
  "str_int i = (if i < 0 then ''-'' @ str_nat (nat (- i)) else str_nat (nat i))"

text \<open>The text of a shape tuple: \<open>()\<close>, \<open>(5,)\<close>, \<open>(2, 3)\<close>.\<close>

fun join :: "string \<Rightarrow> string list \<Rightarrow> string" where
  "join sep [] = ''''"
| "join sep [x] = x"
| "join sep (x # y # ys) = x @ sep @ join sep (y # ys)"

definition tuple_repr :: "nat list \<Rightarrow> string" where
  "tuple_repr ds =
     (case ds of
        [d] \<Rightarrow> ''('' @ str_nat d @ '',)''
      | _ \<Rightarrow> ''('' @ join '', '' (map str_nat ds) @ '')'')"

text \<open>The body of the sampling loop for one resolved grid cell \<open>(i, j)\<close>.\<close>

definition sample_value :: "string \<Rightarrow> ndarray \<Rightarrow> int \<Rightarrow> nat \<Rightarrow> nat \<Rightarrow> exn + real" where
  "sample_value variable var_data time_idx i j =
     (if length (shape var_data) = 3 then nd_item var_data [time_idx, int j, int i]
      else if length (shape var_data) = 4 then nd_item var_data [time_idx, 0, int j, int i]
      else Inl (ValueError (''Unexpected data shape for '' @ variable @ '': ''
                              @ tuple_repr (shape var_data))))"

fun sample_loop ::
  "real list \<Rightarrow> real list \<Rightarrow> string \<Rightarrow> ndarray \<Rightarrow> int \<Rightarrow> (real \<times> real) list \<Rightarrow> exn + real list" where
  "sample_loop model_lon model_lat variable var_data time_idx [] = Inr []"
| "sample_loop model_lon model_lat variable var_data time_idx ((obs_lon, obs_lat) # rest) =
     and_then (find_nearest_grid_point obs_lon obs_lat model_lon model_lat) (\<lambda>(i, j).
     and_then (sample_value variable var_data time_idx i j) (\<lambda>v.
     and_then (sample_loop model_lon model_lat variable var_data time_idx rest) (\<lambda>vs.
     Inr (v # vs))))"

definition sample_nature_run ::
  "nature_data \<Rightarrow> real list \<Rightarrow> real list \<Rightarrow> string \<Rightarrow> int \<Rightarrow> exn + real list" where
  "sample_nature_run nature obs_lons obs_lats variable time_idx =
     and_then (nature_item nature variable) (\<lambda>var_data.
     sample_loop (nd_lon nature) (nd_lat nature) variable var_data time_idx
       (zip obs_lons obs_lats))"

subsection \<open>Python format specifications\<close>

text \<open>
  \<open>format_d w\<close> is \<open>{:wd}\<close>, \<open>format_0d w\<close> is \<open>{:0wd}\<close>, \<open>format_s w\<close> is \<open>{:ws}\<close>
  and \<open>format_f w p\<close> is \<open>{:w.pf}\<close>: at least \<open>w\<close> characters, numbers padded on the
  left and strings on the right, never truncated. A float is rounded to \<open>p\<close> decimals,
  exact ties to the even neighbour, and keeps its sign when it rounds to zero.
\<close>

definition newline :: char where
  "newline = CHR 0x0A"

definition rjust :: "nat \<Rightarrow> char \<Rightarrow> string \<Rightarrow> string" where
  "rjust w c s = replicate (w - length s) c @ s"

definition ljust :: "nat \<Rightarrow> char \<Rightarrow> string \<Rightarrow> string" where
  "ljust w c s = s @ replicate (w - length s) c"

definition format_d :: "nat \<Rightarrow> int \<Rightarrow> string" where
  "format_d w i = rjust w CHR '' '' (str_int i)"

definition format_0d :: "nat \<Rightarrow> int \<Rightarrow> string" where
  "format_0d w i =
     (if i < 0 then ''-'' @ rjust (w - 1) CHR ''0'' (str_nat (nat (- i)))
      else rjust w CHR ''0'' (str_nat (nat i)))"

definition format_s :: "nat \<Rightarrow> string \<Rightarrow> string" where
  "format_s w s = ljust w CHR '' '' s"

definition round_half_even :: "real \<Rightarrow> int" where
  "round_half_even x =
     (let f = \<lfloor>x\<rfloor>; d = x - of_int f in
      if d < 1 / 2 then f
      else if 1 / 2 < d then f + 1
      else if even f then f else f + 1)"

definition format_f :: "nat \<Rightarrow> nat \<Rightarrow> real \<Rightarrow> string" where
  "format_f w p x =
     (let q = nat (round_half_even (\<bar>x\<bar> * 10 ^ p)) in
      rjust w CHR '' ''
        ((if x < 0 then ''-'' else '''') @ str_nat (q div 10 ^ p)
         @ (if p = 0 then '''' else ''.'' @ rjust p CHR ''0'' (str_nat (q mod 10 ^ p)))))"

subsection \<open>Record Assembler and Serializer\<close>

record observation =
  row_year :: int
  row_lon :: real
  row_lat :: real
  row_variable :: string
  row_true_value :: real
  row_observed_value :: real
  row_error :: real

text \<open>
  \<open>pd.DataFrame\<close> of one scalar year, one scalar tag and five arrays: row \<open>k\<close> takes
  entry \<open>k\<close> of every array; arrays of different lengths raise \<open>ValueError\<close>.
\<close>

definition data_frame ::
  "int \<Rightarrow> real list \<Rightarrow> real list \<Rightarrow> string \<Rightarrow> real list \<Rightarrow> real list \<Rightarrow> real list
     \<Rightarrow> exn + observation list" where
  "data_frame year lons lats variable trues obs errs =
     (if length lats = length lons \<and> length trues = length lons
         \<and> length obs = length lons \<and> length errs = length lons
      then Inr (map (\<lambda>k. \<lparr>row_year = year, row_lon = lons ! k, row_lat = lats ! k,
                            row_variable = variable, row_true_value = trues ! k,
                            row_observed_value = obs ! k, row_error = errs ! k\<rparr>)
                  [0..<length lons])
      else Inl (ValueError ''All arrays must be of the same length''))"

text \<open>
  What the program reads from and writes to its surroundings: the directories it has
  created, the files it has written in the order of the writes (path and content), and the
  number of times it has read the clock. The surroundings it cannot choose are the
  parameter \<open>env\<close>: the text \<open>strftime\<close> gives for the \<open>k\<close>-th reading of the clock, the
  text pandas writes for a float in a CSV cell, and the NetCDF files that can be opened.
\<close>

record world =
  dirs :: "string list"
  files :: "(string \<times> string) list"
  clock_reads :: nat

type_synonym dataset = "string \<rightharpoonup> ndarray"

record env =
  now_text :: "nat \<Rightarrow> string"
  float_repr :: "real \<Rightarrow> string"
  open_dataset :: "string \<Rightarrow> dataset option"

definition write_file :: "string \<Rightarrow> string \<Rightarrow> world \<Rightarrow> world" where
  "write_file filename content w = w\<lparr>files := files w @ [(filename, content)]\<rparr>"

definition read_clock :: "env \<Rightarrow> world \<Rightarrow> string \<times> world" where
  "read_clock E w = (now_text E (clock_reads w), w\<lparr>clock_reads := Suc (clock_reads w)\<rparr>)"

text \<open>The lines of a text: every line ends with a line break, which is not part of it.\<close>

fun split_lines :: "string \<Rightarrow> string list" where
  "split_lines [] = []"
| "split_lines (c # cs) =
     (if c = newline then [] # split_lines cs
      else (case split_lines cs of [] \<Rightarrow> [[c]] | l # ls \<Rightarrow> (c # l) # ls))"

definition pdaf_line :: "observation \<Rightarrow> string" where
  "pdaf_line row =
     format_d 4 (row_year row) @ '' '' @ format_f 8 3 (row_lon row) @ '' ''
     @ format_f 8 3 (row_lat row) @ '' '' @ format_s 4 (row_variable row) @ '' ''
     @ format_f 12 6 (row_observed_value row) @ '' '' @ format_f 8 3 (row_error row)"

definition pdaf_header :: "string \<Rightarrow> nat \<Rightarrow> string" where
  "pdaf_header now n =
     ''# PDAF Observation File'' @ [newline]
     @ ''# Format: year lon lat variable observed_value error'' @ [newline]
     @ ''# Generated: '' @ now @ [newline]
     @ ''# Number of observations: '' @ str_nat n @ [newline, newline]"

definition pdaf_text :: "string \<Rightarrow> observation list \<Rightarrow> string" where
  "pdaf_text now obs_df =
     pdaf_header now (length obs_df) @ concat (map (\<lambda>row. pdaf_line row @ [newline]) obs_df)"

definition save_pdaf_format :: "env \<Rightarrow> observation list \<Rightarrow> string \<Rightarrow> world \<Rightarrow> world" where
  "save_pdaf_format E obs_df filename w =
     (case read_clock E w of (now, w1) \<Rightarrow> write_file filename (pdaf_text now obs_df) w1)"

text \<open>\<open>obs_df.to_csv(output_file, index=False)\<close>: the column names, then one line per row.\<close>

definition csv_line :: "env \<Rightarrow> observation \<Rightarrow> string" where
  "csv_line E row =
     join '','' [str_int (row_year row), float_repr E (row_lon row), float_repr E (row_lat row),
                row_variable row, float_repr E (row_true_value row),
                float_repr E (row_observed_value row), float_repr E (row_error row)]"

definition csv_header :: string where
  "csv_header = ''year,lon,lat,variable,true_value,observed_value,error'' @ [newline]"

definition csv_text :: "env \<Rightarrow> observation list \<Rightarrow> string" where
  "csv_text E obs_df = csv_header @ concat (map (\<lambda>row. csv_line E row @ [newline]) obs_df)"

definition summary_text ::
  "string \<Rightarrow> int \<Rightarrow> int \<Rightarrow> int \<Rightarrow> real \<Rightarrow> real \<Rightarrow> real \<Rightarrow> real \<Rightarrow> string" where
  "summary_text now n_years n_obs_tas n_obs_pr lon_min lon_max lat_min lat_max =
     ''CLIMBER-X OSSE Synthetic Observation Summary'' @ [newline]
     @ replicate 50 CHR ''='' @ [newline, newline]
     @ ''Experiment period: '' @ str_int n_years @ '' years'' @ [newline]
     @ ''Observations per year:'' @ [newline]
     @ ''  - tas (temperature): '' @ str_int n_obs_tas @ [newline]
     @ ''  - pr (precipitation): '' @ str_int n_obs_pr @ [newline]
     @ ''  - Total: '' @ str_int (n_obs_tas + n_obs_pr) @ [newline, newline]
     @ ''Model grid bounds:'' @ [newline]
     @ ''  - Longitude: ['' @ format_f 0 1 lon_min @ '', '' @ format_f 0 1 lon_max
     @ ''] degrees'' @ [newline]
     @ ''  - Latitude: ['' @ format_f 0 1 lat_min @ '', '' @ format_f 0 1 lat_max
     @ ''] degrees'' @ [newline, newline]
     @ ''Observation errors:'' @ [newline]
     @ ''  - tas: 1.0 K (Gaussian)'' @ [newline]
     @ ''  - pr: 10% relative error (Gaussian)'' @ [newline, newline]
     @ ''File formats:'' @ [newline]
     @ ''  - CSV: observations_year_YYYY.csv (detailed format)'' @ [newline]
     @ ''  - PDAF: pdaf_obs_year_YYYY.txt (PDAF-compatible)'' @ [newline, newline]
     @ ''Generated: '' @ now @ [newline]"

definition create_summary_file ::
  "env \<Rightarrow> string \<Rightarrow> int \<Rightarrow> int \<Rightarrow> int \<Rightarrow> real \<Rightarrow> real \<Rightarrow> real \<Rightarrow> real \<Rightarrow> world \<Rightarrow> world" where
  "create_summary_file E filename n_years n_obs_tas n_obs_pr lon_min lon_max lat_min lat_max w =
     (case read_clock E w of
        (now, w1) \<Rightarrow>
          write_file filename
            (summary_text now n_years n_obs_tas n_obs_pr lon_min lon_max lat_min lat_max) w1)"

subsection \<open>The per-year driver\<close>

definition np_min :: "real list \<Rightarrow> exn + real" where
  "np_min xs =
     (case xs of
        [] \<Rightarrow> Inl (ValueError ''zero-size array to reduction operation minimum which has no identity'')
      | x # rest \<Rightarrow> Inr (fold min rest x))"

definition np_max :: "real list \<Rightarrow> exn + real" where
  "np_max xs =
     (case xs of
        [] \<Rightarrow> Inl (ValueError ''zero-size array to reduction operation maximum which has no identity'')
      | x # rest \<Rightarrow> Inr (fold max rest x))"

text \<open>\<open>os.path.join\<close> of a directory and a file name.\<close>

definition path_join :: "string \<Rightarrow> string \<Rightarrow> string" where
  "path_join a b =
     (if b \<noteq> [] \<and> hd b = CHR ''/'' then b
      else if a = [] \<or> last a = CHR ''/'' then a @ b
      else a @ ''/'' @ b)"

text \<open>\<open>os.makedirs(output_dir, exist_ok=True)\<close>; the empty path raises.\<close>

definition makedirs :: "string \<Rightarrow> world \<Rightarrow> exn + world" where
  "makedirs output_dir w =
     (if output_dir = [] then Inl (OSError output_dir)
      else Inr (w\<lparr>dirs := List.insert output_dir (dirs w)\<rparr>))"

text \<open>
  The body of the loop over the years up to \<open>pd.concat\<close>: the two networks, the true
  values, the noisy values and the Observation Set of one year.
\<close>

definition year_observations ::
  "'g np_random \<Rightarrow> nature_data \<Rightarrow> int \<Rightarrow> int \<Rightarrow> real \<times> real \<Rightarrow> real \<times> real \<Rightarrow> int \<Rightarrow> 'g
     \<Rightarrow> exn + (observation list \<times> 'g)" where
  "year_observations R nature n_obs_tas n_obs_pr lon_range lat_range year g =
     and_then (generate_random_locations R n_obs_tas lon_range lat_range (Some (year * 2)) g)
       (\<lambda>((tas_lons, tas_lats), g1).
     and_then (generate_random_locations R n_obs_pr lon_range lat_range (Some (year * 2 + 1)) g1)
       (\<lambda>((pr_lons, pr_lats), g2).
     and_then (sample_nature_run nature tas_lons tas_lats ''tas'' year) (\<lambda>tas_true.
     and_then (sample_nature_run nature pr_lons pr_lats ''pr'' year) (\<lambda>pr_true.
     and_then (add_observation_noise R tas_true ''tas'' g2) (\<lambda>((tas_obs, tas_errors), g3).
     and_then (add_observation_noise R pr_true ''pr'' g3) (\<lambda>((pr_obs, pr_errors), g4).
     and_then (data_frame year tas_lons tas_lats ''tas'' tas_true tas_obs tas_errors) (\<lambda>tas_df.
     and_then (data_frame year pr_lons pr_lats ''pr'' pr_true pr_obs pr_errors) (\<lambda>pr_df.
     Inr (tas_df @ pr_df, g4)))))))))"

text \<open>
  The loop over the years: an exception leaves the files of the earlier years in place
  and ends the run.
\<close>

fun year_loop ::
  "env \<Rightarrow> 'g np_random \<Rightarrow> nature_data \<Rightarrow> int \<Rightarrow> int \<Rightarrow> real \<times> real \<Rightarrow> real \<times> real \<Rightarrow> string
     \<Rightarrow> int list \<Rightarrow> 'g \<Rightarrow> world \<Rightarrow> (exn + 'g) \<times> world" where
  "year_loop E R nature n_obs_tas n_obs_pr lon_range lat_range output_dir [] g w = (Inr g, w)"
| "year_loop E R nature n_obs_tas n_obs_pr lon_range lat_range output_dir (year # years) g w =
     (case year_observations R nature n_obs_tas n_obs_pr lon_range lat_range year g of
        Inl e \<Rightarrow> (Inl e, w)
      | Inr (obs_df, g1) \<Rightarrow>
          (let output_file =
                 path_join output_dir (''observations_year_'' @ format_0d 4 year @ ''.csv'');
               w1 = write_file output_file (csv_text E obs_df) w;
               pdaf_file = path_join output_dir (''pdaf_obs_year_'' @ format_0d 4 year @ ''.txt'');
               w2 = save_pdaf_format E obs_df pdaf_file w1
           in year_loop E R nature n_obs_tas n_obs_pr lon_range lat_range output_dir years g1 w2))"

definition generate_synthetic_observations ::
  "env \<Rightarrow> 'g np_random \<Rightarrow> nature_data \<Rightarrow> int \<Rightarrow> int \<Rightarrow> int \<Rightarrow> int \<Rightarrow> string \<Rightarrow> 'g \<Rightarrow> world
     \<Rightarrow> (exn + 'g) \<times> world" where
  "generate_synthetic_observations E R nature n_obs_tas n_obs_pr start_year n_years output_dir g w =
     (case makedirs output_dir w of
        Inl e \<Rightarrow> (Inl e, w)
      | Inr w0 \<Rightarrow>
          (case and_then (np_min (nd_lon nature)) (\<lambda>lon_min.
                and_then (np_max (nd_lon nature)) (\<lambda>lon_max.
                and_then (np_min (nd_lat nature)) (\<lambda>lat_min.
                and_then (np_max (nd_lat nature)) (\<lambda>lat_max.
                Inr (lon_min, lon_max, lat_min, lat_max))))) of
             Inl e \<Rightarrow> (Inl e, w0)
           | Inr (lon_min, lon_max, lat_min, lat_max) \<Rightarrow>
               (case year_loop E R nature n_obs_tas n_obs_pr (lon_min, lon_max) (lat_min, lat_max)
                       output_dir [start_year..start_year + n_years - 1] g w0 of
                  (Inl e, w1) \<Rightarrow> (Inl e, w1)
                | (Inr g1, w1) \<Rightarrow>
                    (Inr g1,
                     create_summary_file E (path_join output_dir ''observation_summary.txt'')
                       n_years n_obs_tas n_obs_pr lon_min lon_max lat_min lat_max w1))))"

subsection \<open>Loader and entry point\<close>

text \<open>The first of the names that is a variable of the data set, as the loops with \<open>break\<close> find it.\<close>

fun first_variable :: "dataset \<Rightarrow> string list \<Rightarrow> ndarray option" where
  "first_variable ds [] = None"
| "first_variable ds (name # names) =
     (case ds name of Some a \<Rightarrow> Some a | None \<Rightarrow> first_variable ds names)"

definition tas_names :: "string list" where
  "tas_names = [''tas'', ''temp'', ''temperature'', ''t2m'', ''t_ref'']"

definition pr_names :: "string list" where
  "pr_names = [''pr'', ''precip'', ''precipitation'', ''rain'', ''prec'']"

text \<open>
  \<open>ds.variables[a] if a in ds.variables else ds.variables[b]\<close>; the coordinate
  variables are one-dimensional, so their entries are the axis.
\<close>

definition coordinate :: "dataset \<Rightarrow> string \<Rightarrow> string \<Rightarrow> exn + real list" where
  "coordinate ds a b =
     (case ds a of
        Some v \<Rightarrow> Inr (data v)
      | None \<Rightarrow> (case ds b of Some v \<Rightarrow> Inr (data v) | None \<Rightarrow> Inl (KeyError b)))"

definition load_nature_run_data :: "env \<Rightarrow> string \<Rightarrow> exn + nature_data" where
  "load_nature_run_data E nature_run_file =
     (case open_dataset E nature_run_file of
        None \<Rightarrow> Inl (OSError nature_run_file)
      | Some ds \<Rightarrow>
          and_then (coordinate ds ''lon'' ''longitude'') (\<lambda>lon.
          and_then (coordinate ds ''lat'' ''latitude'') (\<lambda>lat.
          (let time = (case ds ''time'' of Some v \<Rightarrow> data v | None \<Rightarrow> map real [0..<1000]) in
           case first_variable ds tas_names of
             None \<Rightarrow> Inl (ValueError ''Could not find tas/temperature data in nature run file'')
           | Some tas \<Rightarrow>
               (case first_variable ds pr_names of
                  None \<Rightarrow> Inl (ValueError ''Could not find pr/precipitation data in nature run file'')
                | Some pr \<Rightarrow>
                    Inr \<lparr>nd_tas = tas, nd_pr = pr, nd_lon = lon, nd_lat = lat,
                         nd_time = time\<rparr>)))))"

record args =
  arg_nature_run :: string
  arg_output_dir :: string
  arg_n_obs_tas :: int
  arg_n_obs_pr :: int
  arg_start_year :: int
  arg_n_years :: int

definition main :: "env \<Rightarrow> 'g np_random \<Rightarrow> args \<Rightarrow> 'g \<Rightarrow> world \<Rightarrow> (exn + 'g) \<times> world" where
  "main E R a g w =
     (case load_nature_run_data E (arg_nature_run a) of
        Inl e \<Rightarrow> (Inl e, w)
      | Inr nature \<Rightarrow>
          generate_synthetic_observations E R nature (arg_n_obs_tas a) (arg_n_obs_pr a)
            (arg_start_year a) (arg_n_years a) (arg_output_dir a) g w)"

subsection \<open>A concrete generator and concrete surroundings for running the model\<close>

definition demo_rng :: "nat np_random" where
  "demo_rng =
     \<lparr>seed_state = (\<lambda>s. nat s),
      next_double = (\<lambda>g. (real (g mod 4) / 4, Suc g)),
      next_gauss = (\<lambda>g. (real (g mod 3) - 1, Suc g))\<rparr>"

text \<open>
  A \<open>2 \<times> 2\<close> grid with four years of a three-axis temperature field and a four-axis
  precipitation field, a data set without any temperature variable, a complete data set,
  and surroundings with a fixed clock.
\<close>

definition demo_nature :: nature_data where
  "demo_nature =
     \<lparr>nd_tas = \<lparr>shape = [4, 2, 2],
                data = [0, 1, 2, 3, 4, 5, 6, 7, 8, 9, 10, 11, 12, 13, 14, 15]\<rparr>,
      nd_pr = \<lparr>shape = [4, 1, 2, 2],
               data = [0, 10, 20, 30, 40, 50, 60, 70, 80, 90, 100, 110, 120, 130, 140, 150]\<rparr>,
      nd_lon = [0, 180], nd_lat = [- 45, 45], nd_time = [0, 1, 2, 3]\<rparr>"

definition demo_dataset :: dataset where
  "demo_dataset =
     [''lon'' \<mapsto> vector [0, 180], ''lat'' \<mapsto> vector [- 45, 45],
      ''precip'' \<mapsto> nd_pr demo_nature]"

definition demo_dataset_full :: dataset where
  "demo_dataset_full =
     [''lon'' \<mapsto> vector [0, 180], ''lat'' \<mapsto> vector [- 45, 45],
      ''time'' \<mapsto> vector [0, 1, 2, 3],
      ''t2m'' \<mapsto> nd_tas demo_nature, ''precip'' \<mapsto> nd_pr demo_nature]"

definition demo_env :: env where
  "demo_env =
     \<lparr>now_text = (\<lambda>k. ''2024-01-01 00:00:00''),
      float_repr = format_f 0 6,
      open_dataset = (\<lambda>name. if name = ''nature_run.nc'' then Some demo_dataset else None)\<rparr>"

definition demo_world :: world where
  "demo_world = \<lparr>dirs = [], files = [], clock_reads = 0\<rparr>"

definition demo_args :: args where
  "demo_args =
     \<lparr>arg_nature_run = ''nature_run.nc'', arg_output_dir = ''obs_data'', arg_n_obs_tas = 100,
      arg_n_obs_pr = 100, arg_start_year = 0, arg_n_years = 1000\<rparr>"

definition demo_obs :: "observation list" where
  "demo_obs =
     [\<lparr>row_year = 3, row_lon = 90, row_lat = 45 / 2, row_variable = ''tas'',
       row_true_value = 14, row_observed_value = 13, row_error = 1\<rparr>,
      \<lparr>row_year = 3, row_lon = 135, row_lat = - 45, row_variable = ''pr'',
       row_true_value = 130, row_observed_value = 130, row_error = 13\<rparr>]"

section \<open>Properties\<close>

subsection \<open>Properties of the Grid Locator\<close>













subsection \<open>Sequencing\<close>

lemma and_then_Inl [simp]: "and_then (Inl e) f = Inl e"
  by (simp add: and_then_def)

lemma and_then_Inr [simp]: "and_then (Inr x) f = f x"
  by (simp add: and_then_def)

lemma and_then_eq_Inr_iff: "and_then m f = Inr y \<longleftrightarrow> (\<exists>x. m = Inr x \<and> f x = Inr y)"
  by (cases m) simp_all

subsection \<open>Properties of the Noise Model\<close>

lemma draw_normal_length: "draw_normal R loc ss g = (xs, g') \<Longrightarrow> length xs = length ss"
  by (induction ss arbitrary: g xs g') (auto split: prod.splits)

lemma tas_noise:
  "add_observation_noise R values ''tas'' g =
     Inr ((map (\<lambda>v. v + fst (next_gauss R g)) values, replicate (length values) 1),
          snd (next_gauss R g))"
  by (simp add: add_observation_noise_def np_normal_def np_add_def and_then_def
      split: prod.splits)

lemma pr_noise:
  "add_observation_noise R values ''pr'' g =
     Inr ((map (\<lambda>(v, z). v + z)
             (zip values (fst (draw_normal R 0 (map (\<lambda>v. 0.1 * \<bar>v\<bar>) values) g))),
           map (\<lambda>v. 0.1 * \<bar>v\<bar>) values),
          snd (draw_normal R 0 (map (\<lambda>v. 0.1 * \<bar>v\<bar>) values) g))"
  by (simp add: add_observation_noise_def np_normal_def np_add_def and_then_def
      split: prod.splits)

text \<open>
  Claim C1, at the input where the code departs from it. For the tag \<open>tas\<close> the scale
  passed to \<open>np.random.normal\<close> is the float \<open>1.0\<close>, so the call makes one draw \<open>z\<close>
  and returns a float: the generator advances by a single draw whatever the number of
  observations, and both of two observations with true value \<open>0\<close> are perturbed by the same
  \<open>z\<close>.
\<close>

theorem tas_noise_single_shared_draw:
  "add_observation_noise R [0, 0] ''tas'' g =
     Inr (([fst (next_gauss R g), fst (next_gauss R g)], [1, 1]), snd (next_gauss R g))
   \<and> (\<exists>noisy errors.
         add_observation_noise R values ''tas'' g = Inr ((noisy, errors), snd (next_gauss R g))
         \<and> noisy = map (\<lambda>v. v + fst (next_gauss R g)) values)"
  by (simp add: tas_noise eval_nat_numeral)

theorem tas_noise_single_shared_draw_witness:
  "add_observation_noise demo_rng [0, 0] ''tas'' 0 = Inr (([- 1, - 1], [1, 1]), 1)"
  using tas_noise_single_shared_draw [of demo_rng 0 "[0, 0]"]
  by (simp add: demo_rng_def)



subsection \<open>Properties of the Network Sampler\<close>

lemma generate_random_locations_seeded:
  "generate_random_locations R n_obs lon_range lat_range (Some seed) g =
   generate_random_locations R n_obs lon_range lat_range (Some seed) g'"
  by (simp add: generate_random_locations_def)

subsection \<open>Properties of the Field Sampler\<close>









subsection \<open>Properties of the per-year driver\<close>

lemma draw_uniform_length: "draw_uniform R low high n g = (xs, g') \<Longrightarrow> length xs = n"
  by (induction n arbitrary: g xs g') (auto split: prod.splits)

lemma np_uniform_length: "np_uniform R low high n g = Inr (xs, g') \<Longrightarrow> length xs = nat n"
  by (auto simp: np_uniform_def draw_uniform_length split: if_splits)

lemma generate_random_locations_length:
  assumes "generate_random_locations R n_obs lon_range lat_range seed g = Inr ((lons, lats), g')"
  shows "length lons = nat n_obs" and "length lats = nat n_obs"
  using assms
  by (auto simp: generate_random_locations_def and_then_eq_Inr_iff dest: np_uniform_length)

lemma data_frame_Inr:
  assumes "length lats = length lons" and "length trues = length lons"
    and "length obs = length lons" and "length errs = length lons"
  shows "\<exists>df. data_frame year lons lats variable trues obs errs = Inr df
           \<and> length df = length lons
           \<and> map row_variable df = replicate (length lons) variable
           \<and> map (\<lambda>row. (row_lon row, row_lat row)) df = zip lons lats"
  using assms
  by (auto simp: data_frame_def o_def map_replicate_const intro!: nth_equalityI)

lemma data_frame_InrD:
  assumes "data_frame year lons lats variable trues obs errs = Inr df"
  shows "length df = length lons"
    and "map row_variable df = replicate (length lons) variable"
    and "map (\<lambda>row. (row_lon row, row_lat row)) df = zip lons lats"
proof -
  have l: "length lats = length lons" "length trues = length lons"
    "length obs = length lons" "length errs = length lons"
    using assms by (auto simp: data_frame_def split: if_splits)
  from data_frame_Inr [OF l, of year variable] assms
  show "length df = length lons"
    and "map row_variable df = replicate (length lons) variable"
    and "map (\<lambda>row. (row_lon row, row_lat row)) df = zip lons lats"
    by auto
qed

lemma year_observations_seeded:
  "year_observations R nature n_obs_tas n_obs_pr lon_range lat_range year g =
   year_observations R nature n_obs_tas n_obs_pr lon_range lat_range year g'"
  unfolding year_observations_def
  by (simp add: generate_random_locations_seeded [of R n_obs_tas lon_range lat_range _ g g'])

lemma year_observations_InrD:
  assumes "year_observations R nature n_obs_tas n_obs_pr lon_range lat_range year g =
      Inr (obs_df, g4)"
  shows "\<exists>tas_lons tas_lats g1 pr_lons pr_lats g2 tas_df pr_df.
      generate_random_locations R n_obs_tas lon_range lat_range (Some (year * 2)) g =
        Inr ((tas_lons, tas_lats), g1)
    \<and> generate_random_locations R n_obs_pr lon_range lat_range (Some (year * 2 + 1)) g1 =
        Inr ((pr_lons, pr_lats), g2)
    \<and> obs_df = tas_df @ pr_df
    \<and> length tas_df = nat n_obs_tas \<and> length pr_df = nat n_obs_pr
    \<and> map row_variable tas_df = replicate (nat n_obs_tas) ''tas''
    \<and> map row_variable pr_df = replicate (nat n_obs_pr) ''pr''
    \<and> map (\<lambda>row. (row_lon row, row_lat row)) tas_df = zip tas_lons tas_lats
    \<and> map (\<lambda>row. (row_lon row, row_lat row)) pr_df = zip pr_lons pr_lats"
proof -
  from assms obtain tas_lons tas_lats g1 pr_lons pr_lats g2 tas_true pr_true
      tas_obs tas_errors g3 pr_obs pr_errors tas_df pr_df
    where a: "generate_random_locations R n_obs_tas lon_range lat_range (Some (year * 2)) g =
        Inr ((tas_lons, tas_lats), g1)"
      and b: "generate_random_locations R n_obs_pr lon_range lat_range (Some (year * 2 + 1)) g1 =
        Inr ((pr_lons, pr_lats), g2)"
      and c: "data_frame year tas_lons tas_lats ''tas'' tas_true tas_obs tas_errors = Inr tas_df"
      and d: "data_frame year pr_lons pr_lats ''pr'' pr_true pr_obs pr_errors = Inr pr_df"
      and e: "obs_df = tas_df @ pr_df"
    unfolding year_observations_def and_then_eq_Inr_iff by (auto simp: and_then_eq_Inr_iff)
  show ?thesis
    using a b e data_frame_InrD [OF c] data_frame_InrD [OF d]
      generate_random_locations_length [OF a] generate_random_locations_length [OF b]
    by (intro exI [of _ tas_lons] exI [of _ tas_lats] exI [of _ g1] exI [of _ pr_lons]
        exI [of _ pr_lats] exI [of _ g2] exI [of _ tas_df] exI [of _ pr_df]) simp
qed

text \<open>The year \<open>3\<close> of the example grid, with one observation of each variable.\<close>

lemma demo_tas_network:
  "generate_random_locations demo_rng 1 (0, 180) (- 45, 45) (Some 6) g = Inr (([90], [45 / 2]), 8)"
  by (simp add: generate_random_locations_def np_seed_def np_uniform_def demo_rng_def)

lemma demo_pr_network:
  "generate_random_locations demo_rng 1 (0, 180) (- 45, 45) (Some 7) g = Inr (([135], [- 45]), 9)"
  by (simp add: generate_random_locations_def np_seed_def np_uniform_def demo_rng_def)

lemma demo_tas_true: "sample_nature_run demo_nature [90] [45 / 2] ''tas'' 3 = Inr [14]"
  by (simp add: sample_nature_run_def nature_item_def demo_nature_def
      find_nearest_grid_point_def np_argmin_def abs_diff_def sample_value_def nd_item_def)

lemma demo_pr_true: "sample_nature_run demo_nature [135] [- 45] ''pr'' 3 = Inr [130]"
  by (simp add: sample_nature_run_def nature_item_def demo_nature_def
      find_nearest_grid_point_def np_argmin_def abs_diff_def sample_value_def nd_item_def)

lemma demo_year_observations:
  "year_observations demo_rng demo_nature 1 1 (0, 180) (- 45, 45) 3 g = Inr (demo_obs, 11)"
  unfolding year_observations_def
  apply (simp add: demo_tas_network demo_pr_network demo_tas_true demo_pr_true tas_noise pr_noise
      data_frame_def demo_obs_def)
  apply (simp add: demo_rng_def)
  done

text \<open>
  Claim C3. With an integer seed the Network Sampler returns the same result whatever the
  state of the generator before the call. The driver seeds the temperature network with
  \<open>2 * year\<close> and the precipitation network with \<open>2 * year + 1\<close>, so the whole
  Observation Set of a year does not depend on the generator state the year starts with,
  and its locations are the ones the Network Sampler gives for these two seeds from any
  state.
\<close>

theorem network_sampler_reproducible:
  "generate_random_locations R n_obs lon_range lat_range (Some seed) g =
     generate_random_locations R n_obs lon_range lat_range (Some seed) g'
   \<and> year_observations R nature n_obs_tas n_obs_pr lon_range lat_range year g =
     year_observations R nature n_obs_tas n_obs_pr lon_range lat_range year g'
   \<and> (year_observations R nature n_obs_tas n_obs_pr lon_range lat_range year g = Inr (obs_df, g_out)
        \<longrightarrow>
        (\<exists>tas_lons tas_lats ga pr_lons pr_lats gb.
            generate_random_locations R n_obs_tas lon_range lat_range (Some (2 * year)) g' =
              Inr ((tas_lons, tas_lats), ga)
          \<and> generate_random_locations R n_obs_pr lon_range lat_range (Some (2 * year + 1)) g' =
              Inr ((pr_lons, pr_lats), gb)
          \<and> map (\<lambda>row. (row_lon row, row_lat row)) obs_df =
              zip tas_lons tas_lats @ zip pr_lons pr_lats))"
proof (intro conjI impI)
  show "generate_random_locations R n_obs lon_range lat_range (Some seed) g =
     generate_random_locations R n_obs lon_range lat_range (Some seed) g'"
    by (rule generate_random_locations_seeded)
next
  show "year_observations R nature n_obs_tas n_obs_pr lon_range lat_range year g =
     year_observations R nature n_obs_tas n_obs_pr lon_range lat_range year g'"
    by (rule year_observations_seeded)
next
  assume "year_observations R nature n_obs_tas n_obs_pr lon_range lat_range year g =
      Inr (obs_df, g_out)"
  from year_observations_InrD [OF this]
  obtain tas_lons tas_lats g1 pr_lons pr_lats g2 tas_df pr_df where
    a: "generate_random_locations R n_obs_tas lon_range lat_range (Some (year * 2)) g =
        Inr ((tas_lons, tas_lats), g1)"
    and b: "generate_random_locations R n_obs_pr lon_range lat_range (Some (year * 2 + 1)) g1 =
        Inr ((pr_lons, pr_lats), g2)"
    and c: "obs_df = tas_df @ pr_df"
    and d: "map (\<lambda>row. (row_lon row, row_lat row)) tas_df = zip tas_lons tas_lats"
    and e: "map (\<lambda>row. (row_lon row, row_lat row)) pr_df = zip pr_lons pr_lats"
    by blast
  have a': "generate_random_locations R n_obs_tas lon_range lat_range (Some (2 * year)) g' =
      Inr ((tas_lons, tas_lats), g1)"
    using a generate_random_locations_seeded [of R n_obs_tas lon_range lat_range "year * 2" g g']
    by (simp add: mult.commute)
  have b': "generate_random_locations R n_obs_pr lon_range lat_range (Some (2 * year + 1)) g' =
      Inr ((pr_lons, pr_lats), g2)"
    using b generate_random_locations_seeded [of R n_obs_pr lon_range lat_range "year * 2 + 1" g1 g']
    by (simp add: mult.commute)
  have f: "map (\<lambda>row. (row_lon row, row_lat row)) obs_df =
      zip tas_lons tas_lats @ zip pr_lons pr_lats"
    by (simp add: c d e)
  show "\<exists>tas_lons tas_lats ga pr_lons pr_lats gb.
            generate_random_locations R n_obs_tas lon_range lat_range (Some (2 * year)) g' =
              Inr ((tas_lons, tas_lats), ga)
          \<and> generate_random_locations R n_obs_pr lon_range lat_range (Some (2 * year + 1)) g' =
              Inr ((pr_lons, pr_lats), gb)
          \<and> map (\<lambda>row. (row_lon row, row_lat row)) obs_df =
              zip tas_lons tas_lats @ zip pr_lons pr_lats"
    by (intro exI conjI) (rule a', rule b', rule f)
qed

theorem network_sampler_reproducible_witness:
  "year_observations demo_rng demo_nature 1 1 (0, 180) (- 45, 45) 3 0 = Inr (demo_obs, 11)
   \<and> (\<exists>tas_lons tas_lats ga pr_lons pr_lats gb.
          generate_random_locations demo_rng 1 (0, 180) (- 45, 45) (Some (2 * 3)) 5 =
            Inr ((tas_lons, tas_lats), ga)
        \<and> generate_random_locations demo_rng 1 (0, 180) (- 45, 45) (Some (2 * 3 + 1)) 5 =
            Inr ((pr_lons, pr_lats), gb)
        \<and> map (\<lambda>row. (row_lon row, row_lat row)) demo_obs =
            zip tas_lons tas_lats @ zip pr_lons pr_lats)"
proof -
  have run: "year_observations demo_rng demo_nature 1 1 (0, 180) (- 45, 45) 3 0 =
      Inr (demo_obs, 11)"
    by (rule demo_year_observations)
  note nets = network_sampler_reproducible [where R = demo_rng and nature = demo_nature
      and n_obs_tas = 1 and n_obs_pr = 1 and lon_range = "(0, 180)" and lat_range = "(- 45, 45)"
      and year = 3 and g = 0 and g' = 5 and obs_df = demo_obs and g_out = 11,
      THEN conjunct2, THEN conjunct2, THEN mp, OF run]
  show ?thesis by (rule conjI [OF run nets])
qed

lemma year_loop_single:
  assumes "year_observations R nature n_obs_tas n_obs_pr lon_range lat_range year g =
      Inr (obs_df, g_out)"
  shows "year_loop E R nature n_obs_tas n_obs_pr lon_range lat_range output_dir [year] g w =
     (Inr g_out,
      w\<lparr>files := files w @
           [(path_join output_dir (''observations_year_'' @ format_0d 4 year @ ''.csv''),
             csv_text E obs_df),
            (path_join output_dir (''pdaf_obs_year_'' @ format_0d 4 year @ ''.txt''),
             pdaf_text (now_text E (clock_reads w)) obs_df)],
         clock_reads := Suc (clock_reads w)\<rparr>)"
  by (simp add: assms save_pdaf_format_def read_clock_def write_file_def Let_def)

text \<open>
  Claim C9. In the Observation Set of a year the \<open>n_obs_tas\<close> temperature records come
  first and the \<open>n_obs_pr\<close> precipitation records after them, each group at the locations
  of its network in the order the Network Sampler drew them; the detailed table and the
  filter-compatible file of the year both list the records of the set in this order.
\<close>

theorem observation_set_order:
  assumes "year_observations R nature n_obs_tas n_obs_pr lon_range lat_range year g =
      Inr (obs_df, g_out)"
  shows "\<exists>tas_lons tas_lats g1 pr_lons pr_lats g2.
      generate_random_locations R n_obs_tas lon_range lat_range (Some (year * 2)) g =
        Inr ((tas_lons, tas_lats), g1)
    \<and> generate_random_locations R n_obs_pr lon_range lat_range (Some (year * 2 + 1)) g1 =
        Inr ((pr_lons, pr_lats), g2)
    \<and> map row_variable obs_df = replicate (nat n_obs_tas) ''tas'' @ replicate (nat n_obs_pr) ''pr''
    \<and> map (\<lambda>row. (row_lon row, row_lat row)) (take (nat n_obs_tas) obs_df) =
        zip tas_lons tas_lats
    \<and> map (\<lambda>row. (row_lon row, row_lat row)) (drop (nat n_obs_tas) obs_df) =
        zip pr_lons pr_lats
    \<and> files (snd (year_loop E R nature n_obs_tas n_obs_pr lon_range lat_range output_dir
                     [year] g w)) =
        files w @
        [(path_join output_dir (''observations_year_'' @ format_0d 4 year @ ''.csv''),
          csv_header @ concat (map (\<lambda>row. csv_line E row @ [newline]) obs_df)),
         (path_join output_dir (''pdaf_obs_year_'' @ format_0d 4 year @ ''.txt''),
          pdaf_header (now_text E (clock_reads w)) (length obs_df)
          @ concat (map (\<lambda>row. pdaf_line row @ [newline]) obs_df))]"
proof -
  from year_observations_InrD [OF assms]
  obtain tas_lons tas_lats g1 pr_lons pr_lats g2 tas_df pr_df where
    a: "generate_random_locations R n_obs_tas lon_range lat_range (Some (year * 2)) g =
        Inr ((tas_lons, tas_lats), g1)"
    and b: "generate_random_locations R n_obs_pr lon_range lat_range (Some (year * 2 + 1)) g1 =
        Inr ((pr_lons, pr_lats), g2)"
    and c: "obs_df = tas_df @ pr_df"
    and lt: "length tas_df = nat n_obs_tas"
    and vt: "map row_variable tas_df = replicate (nat n_obs_tas) ''tas''"
    and vp: "map row_variable pr_df = replicate (nat n_obs_pr) ''pr''"
    and d: "map (\<lambda>row. (row_lon row, row_lat row)) tas_df = zip tas_lons tas_lats"
    and e: "map (\<lambda>row. (row_lon row, row_lat row)) pr_df = zip pr_lons pr_lats"
    by blast
  have v: "map row_variable obs_df =
      replicate (nat n_obs_tas) ''tas'' @ replicate (nat n_obs_pr) ''pr''"
    by (simp add: c vt vp)
  have t: "map (\<lambda>row. (row_lon row, row_lat row)) (take (nat n_obs_tas) obs_df) =
      zip tas_lons tas_lats"
    by (simp add: c lt d)
  have p: "map (\<lambda>row. (row_lon row, row_lat row)) (drop (nat n_obs_tas) obs_df) =
      zip pr_lons pr_lats"
    by (simp add: c lt e)
  have f: "files (snd (year_loop E R nature n_obs_tas n_obs_pr lon_range lat_range output_dir
                     [year] g w)) =
        files w @
        [(path_join output_dir (''observations_year_'' @ format_0d 4 year @ ''.csv''),
          csv_header @ concat (map (\<lambda>row. csv_line E row @ [newline]) obs_df)),
         (path_join output_dir (''pdaf_obs_year_'' @ format_0d 4 year @ ''.txt''),
          pdaf_header (now_text E (clock_reads w)) (length obs_df)
          @ concat (map (\<lambda>row. pdaf_line row @ [newline]) obs_df))]"
    by (subst year_loop_single [OF assms]) (simp add: csv_text_def pdaf_text_def)
  show ?thesis
    by (intro exI conjI) (rule a, rule b, rule v, rule t, rule p, rule f)
qed

theorem observation_set_order_witness:
  "year_observations demo_rng demo_nature 1 1 (0, 180) (- 45, 45) 3 0 = Inr (demo_obs, 11)
   \<and> map row_variable demo_obs = [''tas'', ''pr'']
   \<and> (\<exists>tas_lons tas_lats g1 pr_lons pr_lats g2.
      generate_random_locations demo_rng 1 (0, 180) (- 45, 45) (Some (3 * 2)) 0 =
        Inr ((tas_lons, tas_lats), g1)
    \<and> generate_random_locations demo_rng 1 (0, 180) (- 45, 45) (Some (3 * 2 + 1)) g1 =
        Inr ((pr_lons, pr_lats), g2)
    \<and> map row_variable demo_obs = replicate (nat 1) ''tas'' @ replicate (nat 1) ''pr''
    \<and> map (\<lambda>row. (row_lon row, row_lat row)) (take (nat 1) demo_obs) = zip tas_lons tas_lats
    \<and> map (\<lambda>row. (row_lon row, row_lat row)) (drop (nat 1) demo_obs) = zip pr_lons pr_lats
    \<and> files (snd (year_loop demo_env demo_rng demo_nature 1 1 (0, 180) (- 45, 45) ''obs_data''
                     [3] 0 demo_world)) =
        files demo_world @
        [(path_join ''obs_data'' (''observations_year_'' @ format_0d 4 3 @ ''.csv''),
          csv_header @ concat (map (\<lambda>row. csv_line demo_env row @ [newline]) demo_obs)),
         (path_join ''obs_data'' (''pdaf_obs_year_'' @ format_0d 4 3 @ ''.txt''),
          pdaf_header (now_text demo_env (clock_reads demo_world)) (length demo_obs)
          @ concat (map (\<lambda>row. pdaf_line row @ [newline]) demo_obs))])"
proof -
  have run: "year_observations demo_rng demo_nature 1 1 (0, 180) (- 45, 45) 3 0 =
      Inr (demo_obs, 11)"
    by (rule demo_year_observations)
  have tags: "map row_variable demo_obs = [''tas'', ''pr'']"
    by (simp add: demo_obs_def)
  note order = observation_set_order [OF run, of demo_env "''obs_data''" demo_world]
  show ?thesis by (rule conjI [OF run conjI [OF tags order]])
qed

subsection \<open>Properties of the filter-compatible file\<close>

lemma replicate_numeral: "replicate (numeral k) x = x # replicate (pred_numeral k) x"
  by (simp add: numeral_eq_Suc)

lemma str_nat_0: "str_nat 0 = ''0''"
  by (simp add: str_nat.simps)

lemma str_nat_1: "str_nat (Suc 0) = ''1''"
  by (simp add: str_nat.simps)

lemma str_nat_numeral:
  "str_nat (numeral k) =
     (if (numeral k :: nat) < 10 then [''0123456789'' ! numeral k]
      else str_nat (numeral k div 10) @ [''0123456789'' ! (numeral k mod 10)])"
  by (rule str_nat.simps)

lemmas format_eval = format_f_def format_d_def format_0d_def format_s_def rjust_def ljust_def
  str_int_def round_half_even_def replicate_numeral str_nat_0 str_nat_1 str_nat_numeral

lemma digit_not_newline: "k < 10 \<Longrightarrow> ''0123456789'' ! k \<noteq> newline"
proof -
  assume "k < 10"
  then have "''0123456789'' ! k \<in> set ''0123456789''" by (intro nth_mem) simp
  then show ?thesis by (auto simp: newline_def)
qed

lemma str_nat_no_newline: "newline \<notin> set (str_nat n)"
proof (induction n rule: str_nat.induct)
  case (1 n)
  show ?case
  proof (cases "n < 10")
    case True
    then show ?thesis using digit_not_newline [of n] by (subst str_nat.simps) auto
  next
    case False
    have "n mod 10 < 10" by simp
    then have "''0123456789'' ! (n mod 10) \<noteq> newline" by (rule digit_not_newline)
    then show ?thesis using False "1.IH" by (subst str_nat.simps) auto
  qed
qed

lemma str_int_no_newline: "newline \<notin> set (str_int i)"
  using str_nat_no_newline by (auto simp: str_int_def newline_def)

lemma rjust_no_newline: "c \<noteq> newline \<Longrightarrow> newline \<notin> set s \<Longrightarrow> newline \<notin> set (rjust w c s)"
  by (auto simp: rjust_def)

lemma ljust_no_newline: "c \<noteq> newline \<Longrightarrow> newline \<notin> set s \<Longrightarrow> newline \<notin> set (ljust w c s)"
  by (auto simp: ljust_def)

lemma format_d_no_newline: "newline \<notin> set (format_d w i)"
  unfolding format_d_def
  by (rule rjust_no_newline) (simp_all add: newline_def str_int_no_newline [unfolded newline_def])

lemma format_f_no_newline: "newline \<notin> set (format_f w p x)"
proof -
  have a: "newline \<notin> set (rjust p CHR ''0'' (str_nat k))" for k
    by (rule rjust_no_newline)
      (simp_all add: newline_def str_nat_no_newline [unfolded newline_def])
  show ?thesis
    unfolding format_f_def Let_def
    by (rule rjust_no_newline) (use a str_nat_no_newline in \<open>auto simp: newline_def\<close>)
qed

lemma format_s_no_newline: "newline \<notin> set s \<Longrightarrow> newline \<notin> set (format_s w s)"
  unfolding format_s_def by (rule ljust_no_newline) (simp_all add: newline_def)

lemma pdaf_line_no_newline:
  "newline \<notin> set (row_variable row) \<Longrightarrow> newline \<notin> set (pdaf_line row)"
  using format_d_no_newline format_f_no_newline format_s_no_newline [of "row_variable row" 4]
  by (auto simp: pdaf_line_def newline_def)

lemma split_lines_line:
  "newline \<notin> set l \<Longrightarrow> split_lines (l @ newline # rest) = l # split_lines rest"
  by (induction l) auto

lemma split_lines_rows:
  assumes "\<forall>x \<in> set xs. newline \<notin> set (f x)"
  shows "split_lines (concat (map (\<lambda>x. f x @ [newline]) xs)) = map f xs"
  using assms by (induction xs) (simp_all add: split_lines_line)

lemma pdaf_text_lines:
  assumes "newline \<notin> set now" and "\<forall>row \<in> set obs_df. newline \<notin> set (row_variable row)"
  shows "split_lines (pdaf_text now obs_df) =
     [''# PDAF Observation File'',
      ''# Format: year lon lat variable observed_value error'',
      ''# Generated: '' @ now,
      ''# Number of observations: '' @ str_nat (length obs_df),
      []] @ map pdaf_line obs_df"
proof -
  let ?h1 = "''# PDAF Observation File''"
  let ?h2 = "''# Format: year lon lat variable observed_value error''"
  let ?h3 = "''# Generated: '' @ now"
  let ?h4 = "''# Number of observations: '' @ str_nat (length obs_df)"
  let ?rows = "concat (map (\<lambda>row. pdaf_line row @ [newline]) obs_df)"
  have rows: "split_lines ?rows = map pdaf_line obs_df"
    by (rule split_lines_rows) (use assms(2) pdaf_line_no_newline in blast)
  have l1: "newline \<notin> set ?h1" by (simp add: newline_def)
  have l2: "newline \<notin> set ?h2" by (simp add: newline_def)
  have l3: "newline \<notin> set ?h3" using assms(1) by (simp add: newline_def)
  have l4: "newline \<notin> set ?h4"
    using str_nat_no_newline [of "length obs_df"] by (simp add: newline_def)
  have l5: "newline \<notin> set []" by simp
  have "pdaf_text now obs_df =
      ?h1 @ newline # (?h2 @ newline # (?h3 @ newline # (?h4 @ newline # ([] @ newline # ?rows))))"
    by (simp add: pdaf_text_def pdaf_header_def)
  then have "split_lines (pdaf_text now obs_df) =
      split_lines (?h1 @ newline # (?h2 @ newline # (?h3 @ newline # (?h4 @ newline # ([] @ newline # ?rows)))))"
    by (rule arg_cong)
  also have "\<dots> = ?h1 # split_lines (?h2 @ newline # (?h3 @ newline # (?h4 @ newline # ([] @ newline # ?rows))))"
    by (rule split_lines_line [OF l1])
  also have "\<dots> = ?h1 # ?h2 # split_lines (?h3 @ newline # (?h4 @ newline # ([] @ newline # ?rows)))"
    by (simp only: split_lines_line [OF l2])
  also have "\<dots> = ?h1 # ?h2 # ?h3 # split_lines (?h4 @ newline # ([] @ newline # ?rows))"
    by (simp only: split_lines_line [OF l3])
  also have "\<dots> = ?h1 # ?h2 # ?h3 # ?h4 # split_lines ([] @ newline # ?rows)"
    by (simp only: split_lines_line [OF l4])
  also have "\<dots> = ?h1 # ?h2 # ?h3 # ?h4 # [] # split_lines ?rows"
    by (simp only: split_lines_line [OF l5])
  finally show ?thesis by (simp only: rows append.simps)
qed

lemma pdaf_line_fields:
  "pdaf_line =
     (\<lambda>row. format_d 4 (row_year row) @ '' '' @ format_f 8 3 (row_lon row) @ '' ''
        @ format_f 8 3 (row_lat row) @ '' '' @ format_s 4 (row_variable row) @ '' ''
        @ format_f 12 6 (row_observed_value row) @ '' '' @ format_f 8 3 (row_error row))"
  by (rule ext) (simp add: pdaf_line_def)

lemma save_pdaf_format_files:
  "files (save_pdaf_format E obs_df filename w) =
     files w @ [(filename, pdaf_text (now_text E (clock_reads w)) obs_df)]"
  by (simp add: save_pdaf_format_def read_clock_def write_file_def)

text \<open>
  Claim C2. The file written by \<open>save_pdaf_format\<close> for \<open>N\<close> records consists of
  \<open>5 + N\<close> lines, each ended by a line break: the four comment lines (format name, column
  format, timestamp, \<open>Number of observations: N\<close>), one empty line, and one line per
  record, in the order of the records, made of the year as \<open>4d\<close>, the longitude and the
  latitude as \<open>8.3f\<close>, the tag as \<open>4s\<close>, the observed value as \<open>12.6f\<close> and the error as
  \<open>8.3f\<close>, separated by single blanks. The timestamp and the tags are assumed to hold no
  line break.
\<close>

theorem pdaf_file_layout:
  assumes "newline \<notin> set (now_text E (clock_reads w))"
    and "\<forall>row \<in> set obs_df. newline \<notin> set (row_variable row)"
  shows "\<exists>content lines.
      files (save_pdaf_format E obs_df filename w) = files w @ [(filename, content)]
    \<and> content = concat (map (\<lambda>l. l @ [newline]) lines)
    \<and> split_lines content = lines
    \<and> length lines = 5 + length obs_df
    \<and> lines =
        [''# PDAF Observation File'',
         ''# Format: year lon lat variable observed_value error'',
         ''# Generated: '' @ now_text E (clock_reads w),
         ''# Number of observations: '' @ str_nat (length obs_df),
         []]
        @ map (\<lambda>row. format_d 4 (row_year row) @ '' '' @ format_f 8 3 (row_lon row) @ '' ''
                 @ format_f 8 3 (row_lat row) @ '' '' @ format_s 4 (row_variable row) @ '' ''
                 @ format_f 12 6 (row_observed_value row) @ '' '' @ format_f 8 3 (row_error row))
            obs_df"
proof -
  let ?now = "now_text E (clock_reads w)"
  let ?lines = "[''# PDAF Observation File'',
         ''# Format: year lon lat variable observed_value error'',
         ''# Generated: '' @ ?now,
         ''# Number of observations: '' @ str_nat (length obs_df),
         []] @ map pdaf_line obs_df"
  have a: "files (save_pdaf_format E obs_df filename w) = files w @ [(filename, pdaf_text ?now obs_df)]"
    by (rule save_pdaf_format_files)
  have b: "pdaf_text ?now obs_df = concat (map (\<lambda>l. l @ [newline]) ?lines)"
    by (simp add: pdaf_text_def pdaf_header_def o_def)
  have c: "split_lines (pdaf_text ?now obs_df) = ?lines"
    by (rule pdaf_text_lines [OF assms])
  have d: "length ?lines = 5 + length obs_df" by simp
  have e: "?lines = [''# PDAF Observation File'',
         ''# Format: year lon lat variable observed_value error'',
         ''# Generated: '' @ now_text E (clock_reads w),
         ''# Number of observations: '' @ str_nat (length obs_df),
         []]
        @ map (\<lambda>row. format_d 4 (row_year row) @ '' '' @ format_f 8 3 (row_lon row) @ '' ''
                 @ format_f 8 3 (row_lat row) @ '' '' @ format_s 4 (row_variable row) @ '' ''
                 @ format_f 12 6 (row_observed_value row) @ '' '' @ format_f 8 3 (row_error row))
            obs_df"
    by (subst pdaf_line_fields) (rule refl)
  show ?thesis
    by (intro exI [of _ "pdaf_text ?now obs_df"] exI [of _ ?lines] conjI)
      (rule a, rule b, rule c, rule d, rule e)
qed

theorem pdaf_file_layout_witness:
  "split_lines (snd (last (files (save_pdaf_format demo_env demo_obs ''pdaf_obs_year_0003.txt''
                                    demo_world)))) =
     [''# PDAF Observation File'',
      ''# Format: year lon lat variable observed_value error'',
      ''# Generated: 2024-01-01 00:00:00'',
      ''# Number of observations: 2'',
      [],
      ''   3   90.000   22.500 tas     13.000000    1.000'',
      ''   3  135.000  -45.000 pr     130.000000   13.000'']"
proof -
  have h1: "newline \<notin> set (now_text demo_env (clock_reads demo_world))"
    by (simp add: demo_env_def newline_def)
  have h2: "\<forall>row \<in> set demo_obs. newline \<notin> set (row_variable row)"
    by (simp add: demo_obs_def newline_def)
  from pdaf_file_layout [OF h1 h2, of "''pdaf_obs_year_0003.txt''"]
  obtain content lines where
    f: "files (save_pdaf_format demo_env demo_obs ''pdaf_obs_year_0003.txt'' demo_world) =
        files demo_world @ [(''pdaf_obs_year_0003.txt'', content)]"
    and s: "split_lines content = lines"
    and l: "lines =
        [''# PDAF Observation File'',
         ''# Format: year lon lat variable observed_value error'',
         ''# Generated: '' @ now_text demo_env (clock_reads demo_world),
         ''# Number of observations: '' @ str_nat (length demo_obs),
         []]
        @ map (\<lambda>row. format_d 4 (row_year row) @ '' '' @ format_f 8 3 (row_lon row) @ '' ''
                 @ format_f 8 3 (row_lat row) @ '' '' @ format_s 4 (row_variable row) @ '' ''
                 @ format_f 12 6 (row_observed_value row) @ '' '' @ format_f 8 3 (row_error row))
            demo_obs"
    by blast
  have c: "snd (last (files (save_pdaf_format demo_env demo_obs ''pdaf_obs_year_0003.txt''
                                    demo_world))) = content"
    by (simp add: f)
  have "length demo_obs = 2" by (simp add: demo_obs_def)
  then have n: "str_nat (length demo_obs) = ''2''"
    by (simp add: str_nat_numeral)
  have v: "lines =
     [''# PDAF Observation File'',
      ''# Format: year lon lat variable observed_value error'',
      ''# Generated: 2024-01-01 00:00:00'',
      ''# Number of observations: 2'',
      [],
      ''   3   90.000   22.500 tas     13.000000    1.000'',
      ''   3  135.000  -45.000 pr     130.000000   13.000'']"
    unfolding l n by (simp add: demo_obs_def demo_env_def format_eval)
  show ?thesis by (simp only: c s v)
qed

subsection \<open>Properties of the loader and the entry point\<close>

lemma first_variable_None_iff:
  "first_variable ds names = None \<longleftrightarrow> (\<forall>name \<in> set names. ds name = None)"
  by (induction names) (auto split: option.splits)

lemma coordinate_cases:
  "coordinate ds a b = (if ds a = None \<and> ds b = None then Inl (KeyError b)
                        else Inr (data (the (if ds a = None then ds b else ds a))))"
  by (auto simp: coordinate_def split: option.splits)

text \<open>
  Claim C8. When the data set opens but the temperature field or the precipitation field
  is under none of its accepted names, the loader raises and \<open>main\<close> ends with that
  exception and the surroundings untouched: no directory is created and no file is
  written. The exception names a missing variable: the coordinate \<open>longitude\<close> or
  \<open>latitude\<close> if that is missing as well (they are read first), otherwise the temperature
  field if it is missing, otherwise the precipitation field.
\<close>

theorem missing_field_aborts:
  assumes "open_dataset E (arg_nature_run a) = Some ds"
    and "(\<forall>name \<in> set tas_names. ds name = None) \<or> (\<forall>name \<in> set pr_names. ds name = None)"
  shows "\<exists>e. load_nature_run_data E (arg_nature_run a) = Inl e
     \<and> main E R a g w = (Inl e, w)
     \<and> e = (if ds ''lon'' = None \<and> ds ''longitude'' = None then KeyError ''longitude''
            else if ds ''lat'' = None \<and> ds ''latitude'' = None then KeyError ''latitude''
            else if \<forall>name \<in> set tas_names. ds name = None
              then ValueError ''Could not find tas/temperature data in nature run file''
            else ValueError ''Could not find pr/precipitation data in nature run file'')"
proof -
  let ?e = "if ds ''lon'' = None \<and> ds ''longitude'' = None then KeyError ''longitude''
            else if ds ''lat'' = None \<and> ds ''latitude'' = None then KeyError ''latitude''
            else if \<forall>name \<in> set tas_names. ds name = None
              then ValueError ''Could not find tas/temperature data in nature run file''
            else ValueError ''Could not find pr/precipitation data in nature run file''"
  have fields: "first_variable ds tas_names = None \<or> first_variable ds pr_names = None"
    using assms(2) by (simp only: first_variable_None_iff)
  have tas: "first_variable ds tas_names = None \<longleftrightarrow> (\<forall>name \<in> set tas_names. ds name = None)"
    by (rule first_variable_None_iff)
  have load: "load_nature_run_data E (arg_nature_run a) = Inl ?e"
    using fields
    by (auto simp: load_nature_run_data_def assms(1) coordinate_cases tas [symmetric]
        split: option.splits)
  have run: "main E R a g w = (Inl ?e, w)"
    by (simp only: main_def load sum.case)
  show ?thesis
    by (intro exI [of _ ?e] conjI) (rule load, rule run, rule refl)
qed

text \<open>A data set with coordinates and precipitation but no temperature variable.\<close>

theorem missing_field_aborts_witness:
  "main demo_env demo_rng demo_args 0 demo_world =
     (Inl (ValueError ''Could not find tas/temperature data in nature run file''), demo_world)"
proof -
  have h1: "open_dataset demo_env (arg_nature_run demo_args) = Some demo_dataset"
    by (simp add: demo_env_def demo_args_def)
  have h2: "(\<forall>name \<in> set tas_names. demo_dataset name = None)
      \<or> (\<forall>name \<in> set pr_names. demo_dataset name = None)"
    by (simp add: tas_names_def demo_dataset_def)
  from missing_field_aborts [OF h1 h2, of demo_rng 0 demo_world]
  obtain e where
    r: "main demo_env demo_rng demo_args 0 demo_world = (Inl e, demo_world)"
    and e: "e = (if demo_dataset ''lon'' = None \<and> demo_dataset ''longitude'' = None
              then KeyError ''longitude''
            else if demo_dataset ''lat'' = None \<and> demo_dataset ''latitude'' = None
              then KeyError ''latitude''
            else if \<forall>name \<in> set tas_names. demo_dataset name = None
              then ValueError ''Could not find tas/temperature data in nature run file''
            else ValueError ''Could not find pr/precipitation data in nature run file'')"
    by blast
  have "e = ValueError ''Could not find tas/temperature data in nature run file''"
    unfolding e by (simp add: tas_names_def demo_dataset_def)
  then show ?thesis using r by simp
qed

text \<open>
  With the complete data set the same entry point creates the output directory and writes
  the two files of the year and the summary.
\<close>

lemma demo_load:
  "load_nature_run_data (demo_env\<lparr>open_dataset := (\<lambda>name. Some demo_dataset_full)\<rparr>)
     ''nature_run.nc'' = Inr demo_nature"
  by (simp add: load_nature_run_data_def demo_dataset_full_def coordinate_def vector_def
      tas_names_def pr_names_def demo_nature_def)

lemma demo_bounds:
  "np_min (nd_lon demo_nature) = Inr 0" "np_max (nd_lon demo_nature) = Inr 180"
  "np_min (nd_lat demo_nature) = Inr (- 45)" "np_max (nd_lat demo_nature) = Inr 45"
  by (simp_all add: demo_nature_def np_min_def np_max_def)

lemma complete_dataset_writes_files:
  "\<exists>g' w'. main (demo_env\<lparr>open_dataset := (\<lambda>name. Some demo_dataset_full)\<rparr>) demo_rng
      (demo_args\<lparr>arg_n_obs_tas := 1, arg_n_obs_pr := 1, arg_start_year := 3,
         arg_n_years := 1\<rparr>)
      0 demo_world = (Inr g', w')
    \<and> dirs w' = [''obs_data'']
    \<and> map fst (files w') =
        [''obs_data/observations_year_0003.csv'', ''obs_data/pdaf_obs_year_0003.txt'',
         ''obs_data/observation_summary.txt'']"
  by (simp add: main_def demo_load demo_args_def generate_synthetic_observations_def makedirs_def
      demo_world_def demo_bounds year_loop_single [OF demo_year_observations]
      create_summary_file_def read_clock_def write_file_def path_join_def format_eval
      del: year_loop.simps)

end
